theory Spec2Isabelle
  imports Main "HOL-Library.Sublist"
begin

section \<open>The workflow dispatcher of trigger-workflow-api.py\<close>

text \<open>
  The script reads one environment variable, builds one request from four constants,
  calls \<^verbatim>\<open>requests.post\<close> once, branches on the status code, prints, and exits.
  The embedding makes its effects explicit:
  \<^item> the environment is a map from variable names to values (\<^verbatim>\<open>os.getenv\<close> is a lookup);
  \<^item> the HTTP client together with the server is a function from the request to either
    an exception (a transport fault raised by \<^verbatim>\<open>requests.post\<close>) or a response;
  \<^item> what the process does is a trace of events in program order: each call of
    \<^verbatim>\<open>print\<close> that wrote its line and each call of \<^verbatim>\<open>requests.post\<close>;
  \<^item> every statement that can raise returns either the exception or its value, and an
    exception ends the function and, uncaught, the process.

  A string that the script prints is a list of code points, since whether
  \<^verbatim>\<open>print\<close> succeeds depends on them; what reaches standard output is its UTF-8
  encoding, a list of bytes. Strings that the script only hands on (the token, the URL,
  the headers) are character lists.
\<close>

subsection \<open>Data\<close>

datatype json = JString string | JObject "(string \<times> json) list"

text \<open>The keyword arguments of \<^verbatim>\<open>requests.post(url, json=payload, headers=headers)\<close>.
  Dictionaries are association lists in insertion order.\<close>

record request =
  url :: string
  json :: json
  headers :: "(string \<times> string) list"

text \<open>A Python \<^verbatim>\<open>str\<close> as its code points. A code point from D800 to DFFF (a
  surrogate) can occur in it, for instance in a body decoded from UTF-7.\<close>

type_synonym unicode = "nat list"

text \<open>The two attributes of \<^verbatim>\<open>requests.Response\<close> that the script reads.\<close>

record response =
  status_code :: int
  "text" :: unicode

datatype exn = RequestException string | UnicodeEncodeError | ValueError

datatype event = Print string | Post request

type_synonym trace = "event list"

type_synonym http = "request \<Rightarrow> exn + response"

type_synonym environ = "string \<rightharpoonup> string"

text \<open>A statement: from the trace so far to the trace after it, with an exception or a
  value.\<close>

type_synonym 'a io = "trace \<Rightarrow> trace \<times> (exn + 'a)"

text \<open>How the process ends: \<^verbatim>\<open>sys.exit(n)\<close>, or an exception that nothing catches.\<close>

datatype outcome = Exit int | Unhandled exn

subsection \<open>Sequencing\<close>

definition io_return :: "'a \<Rightarrow> 'a io" where
  "io_return x tr = (tr, Inr x)"

definition io_lift :: "exn + 'a \<Rightarrow> 'a io" where
  "io_lift r tr = (tr, r)"

text \<open>\<open>io_bind m f\<close> runs \<open>m\<close>, and \<open>f\<close> on its value unless \<open>m\<close> raised.\<close>

definition io_bind :: "'a io \<Rightarrow> ('a \<Rightarrow> 'b io) \<Rightarrow> 'b io" where
  "io_bind m f tr = (case m tr of (tr', Inl e) \<Rightarrow> (tr', Inl e) | (tr', Inr x) \<Rightarrow> f x tr')"

definition io_then :: "unit io \<Rightarrow> 'b io \<Rightarrow> 'b io" where
  "io_then m k = io_bind m (\<lambda>u. k)"

subsection \<open>Configuration\<close>

definition OWNER :: string where
  "OWNER = ''cedyson8-creator''"

definition REPO :: string where
  "REPO = ''traffic-booster-app''"

definition WORKFLOW_FILE :: string where
  "WORKFLOW_FILE = ''build-release.yml''"

definition BRANCH :: string where
  "BRANCH = ''main''"

subsection \<open>Built-ins\<close>

text \<open>The code points of a character list.\<close>

definition ascii :: "string \<Rightarrow> unicode" where
  "ascii s = map of_char s"

text \<open>UTF-8, the encoding of standard output: one to four bytes for a code point.
  Surrogates have no encoding.\<close>

definition surrogate :: "nat \<Rightarrow> bool" where
  "surrogate c = (0xD800 \<le> c \<and> c \<le> 0xDFFF)"

definition utf8_char :: "nat \<Rightarrow> string" where
  "utf8_char c =
     (if c < 0x80 then [char_of c]
      else if c < 0x800 then
        [char_of (0xC0 + c div 0x40), char_of (0x80 + c mod 0x40)]
      else if c < 0x10000 then
        [char_of (0xE0 + c div 0x1000), char_of (0x80 + c div 0x40 mod 0x40),
         char_of (0x80 + c mod 0x40)]
      else
        [char_of (0xF0 + c div 0x40000), char_of (0x80 + c div 0x1000 mod 0x40),
         char_of (0x80 + c div 0x40 mod 0x40), char_of (0x80 + c mod 0x40)])"

definition utf8 :: "unicode \<Rightarrow> string" where
  "utf8 s = concat (map utf8_char s)"

text \<open>\<^verbatim>\<open>print(s)\<close> encodes \<open>s\<close> for the stream. A string with a surrogate raises
  \<^verbatim>\<open>UnicodeEncodeError\<close> and writes nothing; any other string is written, followed by a
  newline, which is one event.\<close>

definition print :: "unicode \<Rightarrow> unit io" where
  "print s tr =
     (if list_ex surrogate s then (tr, Inl UnicodeEncodeError)
      else (tr @ [Print (utf8 s)], Inr ()))"

text \<open>Formatting an integer inside an f-string: decimal digits, a minus sign when
  negative, no padding. The interpreter refuses a numeral of more than
  \<^verbatim>\<open>sys.int_info.default_max_str_digits\<close> digits with \<^verbatim>\<open>ValueError\<close>.\<close>

definition digit_char :: "nat \<Rightarrow> char" where
  "digit_char d = char_of (48 + d)"

fun str_nat :: "nat \<Rightarrow> string" where
  "str_nat n = (if n < 10 then [digit_char n] else str_nat (n div 10) @ [digit_char (n mod 10)])"

definition default_max_str_digits :: nat where
  "default_max_str_digits = 4300"

definition str_int :: "int \<Rightarrow> exn + string" where
  "str_int i =
     (let digits = str_nat (nat \<bar>i\<bar>) in
      if default_max_str_digits < length digits then Inl ValueError
      else Inr (if i < 0 then CHR ''-'' # digits else digits))"

text \<open>\<^verbatim>\<open>requests.post\<close>: the call is one event, and the client decides what comes back.\<close>

definition requests_post :: "http \<Rightarrow> request \<Rightarrow> response io" where
  "requests_post post req tr = (tr @ [Post req], post req)"

text \<open>\<^verbatim>\<open>sys.exit(n)\<close> is the last statement of both paths of the main block; the
  interpreter runs the block from the empty trace and ends with that status, or with
  the exception that reached the top level.\<close>

definition sys_exit :: "int \<Rightarrow> int io" where
  "sys_exit n = io_return n"

definition run :: "int io \<Rightarrow> trace \<times> outcome" where
  "run m = (case m [] of (tr, Inl e) \<Rightarrow> (tr, Unhandled e) | (tr, Inr n) \<Rightarrow> (tr, Exit n))"

subsection \<open>The script\<close>

text \<open>\<^verbatim>\<open>trigger_workflow(token)\<close>, lines 17 to 54 of the source. The three locals, the
  three status lines, the one call of \<^verbatim>\<open>requests.post\<close>, then the chain of
  \<^verbatim>\<open>if\<close>/\<^verbatim>\<open>elif\<close>/\<^verbatim>\<open>else\<close> on the status code in the order of the source.
  The pictographs that start the lines are the code points 1F504, 1F4CD, 1F33F, 2705,
  1F4CA and 274C.\<close>

definition trigger_workflow :: "http \<Rightarrow> string \<Rightarrow> bool io" where
  "trigger_workflow post token =
    (let url = ''https://api.github.com/repos/'' @ OWNER @ ''/'' @ REPO
                 @ ''/actions/workflows/'' @ WORKFLOW_FILE @ ''/dispatches'';
         headers = [(''Accept'', ''application/vnd.github+json''),
                    (''Authorization'', ''Bearer '' @ token),
                    (''X-GitHub-Api-Version'', ''2022-11-28'')];
         payload = JObject [(''ref'', JString BRANCH),
                            (''inputs'', JObject [(''version'', JString ''1.0.0'')])]
     in
     io_then (print (0x1F504 # ascii ('' Triggering workflow: '' @ WORKFLOW_FILE))) (
     io_then (print (0x1F4CD # ascii ('' Repository: '' @ OWNER @ ''/'' @ REPO))) (
     io_then (print (0x1F33F # ascii ('' Branch: '' @ BRANCH))) (
     io_bind (requests_post post \<lparr>url = url, json = payload, headers = headers\<rparr>) (\<lambda>response.
       if status_code response = 204 then
         io_then (print (0x2705 # ascii '' Workflow triggered successfully!'')) (
         io_then (print (0x1F4CA # ascii ('' Check progress at: https://github.com/''
                                             @ OWNER @ ''/'' @ REPO @ ''/actions''))) (
         io_return True))
       else if status_code response = 401 then
         io_then (print (0x274C # ascii '' Authentication failed. Invalid or expired token.'')) (
         io_return False)
       else if status_code response = 404 then
         io_then (print (0x274C # ascii '' Workflow not found. Make sure the workflow file exists.'')) (
         io_return False)
       else
         io_bind (io_lift (str_int (status_code response))) (\<lambda>code.
         io_then (print (0x274C # ascii ('' Error: '' @ code))) (
         io_then (print (text response)) (
         io_return False))))))))"

text \<open>The main block, lines 56 to 69. \<^verbatim>\<open>if not token\<close> holds for \<^verbatim>\<open>None\<close> and for
  the empty string.\<close>

definition main :: "environ \<Rightarrow> http \<Rightarrow> trace \<times> outcome" where
  "main environ post =
    (let token = environ ''GITHUB_TOKEN'' in
     if token = None \<or> token = Some '''' then
       run (
         io_then (print (0x274C # ascii '' GITHUB_TOKEN environment variable not set'')) (
         io_then (print (0x1F4DD # ascii '' Instructions:'')) (
         io_then (print (ascii ''1. Create a Personal Access Token at: https://github.com/settings/tokens'')) (
         io_then (print (ascii ''2. Grant 'actions' scope'')) (
         io_then (print (ascii (''3. Run: export GITHUB_TOKEN='your_token_here'' @ [CHR 0x27]))) (
         io_then (print (ascii ''4. Then run this script again'')) (
         sys_exit 1)))))))
     else
       run (
         io_bind (trigger_workflow post (the token)) (\<lambda>success.
         sys_exit (if success then 0 else 1))))"

subsection \<open>Observing a run\<close>

text \<open>The lines that reached standard output, in order, as bytes.\<close>

fun printed :: "trace \<Rightarrow> string list" where
  "printed [] = []"
| "printed (Print s # tr) = s # printed tr"
| "printed (Post q # tr) = printed tr"

text \<open>The requests handed to \<^verbatim>\<open>requests.post\<close>, in order.\<close>

fun posted :: "trace \<Rightarrow> request list" where
  "posted [] = []"
| "posted (Print s # tr) = posted tr"
| "posted (Post q # tr) = q # posted tr"

text \<open>Standard output as one stream: every printed line followed by a newline.\<close>

definition stdout :: "trace \<Rightarrow> string" where
  "stdout tr = concat (map (\<lambda>s. s @ [CHR 0x0A]) (printed tr))"

text \<open>The status the operating system sees. The interpreter turns an exception that
  reaches the top level into status 1.\<close>

fun exit_status :: "outcome \<Rightarrow> int" where
  "exit_status (Exit n) = n"
| "exit_status (Unhandled e) = 1"

subsection \<open>Values the properties are stated with\<close>

text \<open>The pictographs as the bytes they are in the source file. Lemma
  \<open>utf8_pictographs\<close> shows that these are the encodings of the code points the script
  prints.\<close>

definition U1F504 :: string where
  "U1F504 = [CHR 0xF0, CHR 0x9F, CHR 0x94, CHR 0x84]"

definition U1F4CD :: string where
  "U1F4CD = [CHR 0xF0, CHR 0x9F, CHR 0x93, CHR 0x8D]"

definition U1F33F :: string where
  "U1F33F = [CHR 0xF0, CHR 0x9F, CHR 0x8C, CHR 0xBF]"

definition U2705 :: string where
  "U2705 = [CHR 0xE2, CHR 0x9C, CHR 0x85]"

definition U1F4CA :: string where
  "U1F4CA = [CHR 0xF0, CHR 0x9F, CHR 0x93, CHR 0x8A]"

definition U274C :: string where
  "U274C = [CHR 0xE2, CHR 0x9D, CHR 0x8C]"

definition U1F4DD :: string where
  "U1F4DD = [CHR 0xF0, CHR 0x9F, CHR 0x93, CHR 0x9D]"

text \<open>The request in the words of the specification: the endpoint with owner, repository
  and workflow file written out, the three headers, and the body
  \<^verbatim>\<open>{"ref":"main","inputs":{"version":"1.0.0"}}\<close>. Lemma \<open>trigger_workflow_unfold\<close>
  shows that this is the request the script builds.\<close>

definition dispatch_request :: "string \<Rightarrow> request" where
  "dispatch_request token =
     \<lparr>url = ''https://api.github.com/repos/cedyson8-creator/traffic-booster-app/actions/workflows/build-release.yml/dispatches'',
      json = JObject [(''ref'', JString ''main''),
                      (''inputs'', JObject [(''version'', JString ''1.0.0'')])],
      headers = [(''Accept'', ''application/vnd.github+json''),
                 (''Authorization'', ''Bearer '' @ token),
                 (''X-GitHub-Api-Version'', ''2022-11-28'')]\<rparr>"

text \<open>The three lines printed before the request, with the constants written out.\<close>

definition status_lines :: "event list" where
  "status_lines =
     [Print (U1F504 @ '' Triggering workflow: build-release.yml''),
      Print (U1F4CD @ '' Repository: cedyson8-creator/traffic-booster-app''),
      Print (U1F33F @ '' Branch: main'')]"

text \<open>A request without its \<open>Authorization\<close> header: what is left does not depend on
  the token.\<close>

definition strip_authorization :: "request \<Rightarrow> request" where
  "strip_authorization q = q\<lparr>headers := filter (\<lambda>h. fst h \<noteq> ''Authorization'') (headers q)\<rparr>"

text \<open>The decimal numeral of an integer: what \<open>str_int\<close> returns when it does not raise
  (lemma \<open>str_int_cases\<close>).\<close>

definition decimal :: "int \<Rightarrow> string" where
  "decimal i = (if i < 0 then CHR ''-'' # str_nat (nat \<bar>i\<bar>) else str_nat (nat \<bar>i\<bar>))"

text \<open>Reading a decimal numeral back, to state that the printed status code is the
  number itself.\<close>

definition digit_val :: "char \<Rightarrow> nat" where
  "digit_val c = of_char c - 48"

definition nat_of_str :: "string \<Rightarrow> nat" where
  "nat_of_str s = foldl (\<lambda>a c. 10 * a + digit_val c) 0 s"

definition int_of_str :: "string \<Rightarrow> int" where
  "int_of_str s = (case s of [] \<Rightarrow> 0
                   | c # ds \<Rightarrow> if c = CHR ''-'' then - int (nat_of_str ds) else int (nat_of_str s))"

text \<open>A character below 128: its code point is encoded as itself.\<close>

definition is_ascii :: "char \<Rightarrow> bool" where
  "is_ascii c = (of_char c < (0x80 :: nat))"

section \<open>Properties of the embedding\<close>

declare str_nat.simps [simp del]

subsection \<open>UTF-8\<close>

lemma utf8_Nil: "utf8 [] = []"
  by (simp add: utf8_def)

lemma utf8_Cons: "utf8 (c # s) = utf8_char c @ utf8 s"
  by (simp add: utf8_def)

lemma utf8_ascii: "list_all is_ascii s \<Longrightarrow> utf8 (ascii s) = s"
  by (induction s) (simp_all add: utf8_def ascii_def utf8_char_def is_ascii_def)

lemma surrogate_ascii: "list_ex surrogate (ascii s) = False"
proof -
  have "\<not> surrogate (of_char c)" for c :: char
  proof -
    have "of_char c < (256 :: nat)" by simp
    then show ?thesis unfolding surrogate_def by linarith
  qed
  then show ?thesis
    by (simp add: ascii_def list_ex_iff)
qed

lemma utf8_pictographs:
  "utf8_char 0x1F504 = U1F504" "utf8_char 0x1F4CD = U1F4CD" "utf8_char 0x1F33F = U1F33F"
  "utf8_char 0x2705 = U2705" "utf8_char 0x1F4CA = U1F4CA" "utf8_char 0x274C = U274C"
  "utf8_char 0x1F4DD = U1F4DD"
  by (simp_all add: utf8_char_def U1F504_def U1F4CD_def U1F33F_def U2705_def U1F4CA_def
      U274C_def U1F4DD_def char_of_eq_iff)

lemma print_ascii:
  "list_all is_ascii s \<Longrightarrow> print (ascii s) tr = (tr @ [Print s], Inr ())"
  by (simp add: print_def surrogate_ascii utf8_ascii)

lemma print_pictograph_line:
  "\<not> surrogate c \<Longrightarrow> list_all is_ascii s \<Longrightarrow>
   print (c # ascii s) tr = (tr @ [Print (utf8_char c @ s)], Inr ())"
  by (simp add: print_def surrogate_ascii utf8_ascii utf8_Cons)

lemma print_text:
  "print s tr = (if list_ex surrogate s then (tr, Inl UnicodeEncodeError)
                 else (tr @ [Print (utf8 s)], Inr ()))"
  by (simp add: print_def)

subsection \<open>Decimal numerals\<close>

lemma is_ascii_digit_char: "d < 10 \<Longrightarrow> is_ascii (digit_char d)"
  by (simp add: is_ascii_def digit_char_def)

lemma is_ascii_str_nat: "list_all is_ascii (str_nat n)"
proof (induction n rule: str_nat.induct)
  case (1 n)
  show ?case
  proof (cases "n < 10")
    case True
    then show ?thesis
      by (simp add: str_nat.simps[of n] is_ascii_digit_char)
  next
    case False
    with 1 have "list_all is_ascii (str_nat (n div 10))" by simp
    with False show ?thesis
      by (simp add: str_nat.simps[of n] is_ascii_digit_char)
  qed
qed

lemma is_ascii_decimal: "list_all is_ascii (decimal i)"
  by (simp add: decimal_def is_ascii_str_nat is_ascii_def)

lemma length_str_nat: "0 < k \<Longrightarrow> (length (str_nat n) \<le> k) = (n < 10 ^ k)"
proof (induction n arbitrary: k rule: str_nat.induct)
  case (1 n)
  show ?case
  proof (cases "n < 10")
    case True
    have "(10::nat) ^ 1 \<le> 10 ^ k"
      using 1(2) by (intro power_increasing) simp_all
    with True 1(2) show ?thesis
      by (simp add: str_nat.simps[of n])
  next
    case False
    show ?thesis
    proof (cases k)
      case 0
      with 1(2) show ?thesis by simp
    next
      case (Suc j)
      show ?thesis
      proof (cases "j = 0")
        case True
        have "0 < length (str_nat (n div 10))"
          by (subst str_nat.simps) simp
        with False Suc True show ?thesis
          by (simp add: str_nat.simps[of n])
      next
        case j: False
        with 1(1)[OF False, of j] have "(length (str_nat (n div 10)) \<le> j) = (n div 10 < 10 ^ j)"
          by simp
        moreover have "(n div 10 < 10 ^ j) = (n < 10 ^ Suc j)"
          by (simp add: less_mult_imp_div_less div_less_iff_less_mult mult.commute)
        ultimately show ?thesis
          using False Suc by (simp add: str_nat.simps[of n])
      qed
    qed
  qed
qed

lemma str_int_cases:
  "str_int i = (if 10 ^ default_max_str_digits \<le> \<bar>i\<bar> then Inl ValueError else Inr (decimal i))"
proof -
  have pos: "0 < default_max_str_digits"
    by (simp add: default_max_str_digits_def)
  have "(length (str_nat (nat \<bar>i\<bar>)) \<le> default_max_str_digits)
      = (nat \<bar>i\<bar> < 10 ^ default_max_str_digits)"
    by (rule length_str_nat[OF pos])
  also have "\<dots> = (\<bar>i\<bar> < 10 ^ default_max_str_digits)"
  proof -
    have "(nat \<bar>i\<bar> < 10 ^ default_max_str_digits)
        = (int (nat \<bar>i\<bar>) < int (10 ^ default_max_str_digits))"
      by (simp only: of_nat_less_iff)
    also have "\<dots> = (\<bar>i\<bar> < 10 ^ default_max_str_digits)"
      by simp
    finally show ?thesis .
  qed
  finally have "(default_max_str_digits < length (str_nat (nat \<bar>i\<bar>)))
      = (10 ^ default_max_str_digits \<le> \<bar>i\<bar>)"
    by linarith
  then show ?thesis
    by (simp add: str_int_def decimal_def Let_def)
qed

lemma digit_val_digit_char: "d < 10 \<Longrightarrow> digit_val (digit_char d) = d"
  by (simp add: digit_val_def digit_char_def)

lemma digit_char_not_minus: "d < 10 \<Longrightarrow> digit_char d \<noteq> CHR ''-''"
proof
  assume d: "d < 10" and eq: "digit_char d = CHR ''-''"
  from eq have "of_char (digit_char d) = (of_char (CHR ''-'') :: nat)" by simp
  with d show False by (simp add: digit_char_def)
qed

lemma nat_of_str_snoc: "nat_of_str (s @ [c]) = 10 * nat_of_str s + digit_val c"
  by (simp add: nat_of_str_def)

lemma nat_of_str_str_nat: "nat_of_str (str_nat n) = n"
proof (induction n rule: str_nat.induct)
  case (1 n)
  show ?case
  proof (cases "n < 10")
    case True
    then show ?thesis
      by (simp add: str_nat.simps[of n] nat_of_str_def digit_val_digit_char)
  next
    case False
    with 1 have "nat_of_str (str_nat (n div 10)) = n div 10" by simp
    with False show ?thesis
      by (simp add: str_nat.simps[of n] nat_of_str_snoc digit_val_digit_char)
  qed
qed

lemma str_nat_head: "\<exists>d ds. d < 10 \<and> str_nat n = digit_char d # ds"
proof (induction n rule: str_nat.induct)
  case (1 n)
  show ?case
  proof (cases "n < 10")
    case True
    then show ?thesis by (auto simp add: str_nat.simps[of n])
  next
    case False
    with 1 obtain d ds where "d < 10" "str_nat (n div 10) = digit_char d # ds" by blast
    with False show ?thesis by (auto simp add: str_nat.simps[of n])
  qed
qed

lemma int_of_str_decimal: "int_of_str (decimal i) = i"
proof (cases "i < 0")
  case True
  then show ?thesis by (simp add: decimal_def int_of_str_def nat_of_str_str_nat)
next
  case False
  obtain d ds where d: "d < 10" and s: "str_nat (nat \<bar>i\<bar>) = digit_char d # ds"
    using str_nat_head by blast
  have "nat_of_str (digit_char d # ds) = nat \<bar>i\<bar>"
    using nat_of_str_str_nat[of "nat \<bar>i\<bar>"] s by simp
  with False d s show ?thesis
    by (simp add: decimal_def int_of_str_def digit_char_not_minus)
qed

subsection \<open>Printing the constant lines\<close>

lemma print_result_lines:
  "print (0x2705 # ascii '' Workflow triggered successfully!'') tr
     = (tr @ [Print (U2705 @ '' Workflow triggered successfully!'')], Inr ())"
  "print (0x1F4CA # ascii ('' Check progress at: https://github.com/'' @ OWNER @ ''/'' @ REPO @ ''/actions'')) tr
     = (tr @ [Print (U1F4CA @ '' Check progress at: https://github.com/cedyson8-creator/traffic-booster-app/actions'')], Inr ())"
  "print (0x274C # ascii '' Authentication failed. Invalid or expired token.'') tr
     = (tr @ [Print (U274C @ '' Authentication failed. Invalid or expired token.'')], Inr ())"
  "print (0x274C # ascii '' Workflow not found. Make sure the workflow file exists.'') tr
     = (tr @ [Print (U274C @ '' Workflow not found. Make sure the workflow file exists.'')], Inr ())"
  "print (0x274C # ascii ('' Error: '' @ decimal i)) tr
     = (tr @ [Print (U274C @ '' Error: '' @ decimal i)], Inr ())"
  by (simp_all add: print_pictograph_line utf8_pictographs surrogate_def is_ascii_def
      is_ascii_decimal OWNER_def REPO_def)

lemma print_instruction_lines:
  "print (0x274C # ascii '' GITHUB_TOKEN environment variable not set'') tr
     = (tr @ [Print (U274C @ '' GITHUB_TOKEN environment variable not set'')], Inr ())"
  "print (0x1F4DD # ascii '' Instructions:'') tr
     = (tr @ [Print (U1F4DD @ '' Instructions:'')], Inr ())"
  "print (ascii ''1. Create a Personal Access Token at: https://github.com/settings/tokens'') tr
     = (tr @ [Print ''1. Create a Personal Access Token at: https://github.com/settings/tokens''], Inr ())"
  "print (ascii ''2. Grant 'actions' scope'') tr
     = (tr @ [Print ''2. Grant 'actions' scope''], Inr ())"
  "print (ascii (''3. Run: export GITHUB_TOKEN='your_token_here'' @ [CHR 0x27])) tr
     = (tr @ [Print (''3. Run: export GITHUB_TOKEN='your_token_here'' @ [CHR 0x27])], Inr ())"
  "print (ascii ''4. Then run this script again'') tr
     = (tr @ [Print ''4. Then run this script again''], Inr ())"
  by (simp_all add: print_pictograph_line print_ascii utf8_pictographs surrogate_def is_ascii_def)

subsection \<open>The script, branch by branch\<close>

lemma print_lines_evaluated:
  "print (0x1F504 # ascii '' Triggering workflow: build-release.yml'') tr
     = (tr @ [Print (U1F504 @ '' Triggering workflow: build-release.yml'')], Inr ())"
  "print (0x1F4CD # ascii '' Repository: cedyson8-creator/traffic-booster-app'') tr
     = (tr @ [Print (U1F4CD @ '' Repository: cedyson8-creator/traffic-booster-app'')], Inr ())"
  "print (0x1F33F # ascii '' Branch: main'') tr
     = (tr @ [Print (U1F33F @ '' Branch: main'')], Inr ())"
  "print (0x1F4CA # ascii '' Check progress at: https://github.com/cedyson8-creator/traffic-booster-app/actions'') tr
     = (tr @ [Print (U1F4CA @ '' Check progress at: https://github.com/cedyson8-creator/traffic-booster-app/actions'')], Inr ())"
  by (simp_all add: print_pictograph_line utf8_pictographs surrogate_def is_ascii_def)

lemma tw_fault:
  "post (dispatch_request token) = Inl e \<Longrightarrow>
   trigger_workflow post token tr = (tr @ status_lines @ [Post (dispatch_request token)], Inl e)"
  by (simp add: trigger_workflow_def dispatch_request_def status_lines_def
      io_then_def io_bind_def io_return_def io_lift_def requests_post_def
      print_lines_evaluated
      OWNER_def REPO_def WORKFLOW_FILE_def BRANCH_def Let_def)

lemmas tw_defs = trigger_workflow_def dispatch_request_def status_lines_def
      io_then_def io_bind_def io_return_def io_lift_def requests_post_def
      print_lines_evaluated print_result_lines print_result_lines(5)[simplified]
      OWNER_def REPO_def WORKFLOW_FILE_def BRANCH_def Let_def

lemma tw_204:
  "post (dispatch_request token) = Inr r \<Longrightarrow> status_code r = 204 \<Longrightarrow>
   trigger_workflow post token tr =
     (tr @ status_lines @ [Post (dispatch_request token),
        Print (U2705 @ '' Workflow triggered successfully!''),
        Print (U1F4CA @ '' Check progress at: https://github.com/cedyson8-creator/traffic-booster-app/actions'')],
      Inr True)"
  by (simp add: tw_defs)

lemma tw_401:
  "post (dispatch_request token) = Inr r \<Longrightarrow> status_code r = 401 \<Longrightarrow>
   trigger_workflow post token tr =
     (tr @ status_lines @ [Post (dispatch_request token),
        Print (U274C @ '' Authentication failed. Invalid or expired token.'')],
      Inr False)"
  by (simp add: tw_defs)

lemma tw_404:
  "post (dispatch_request token) = Inr r \<Longrightarrow> status_code r = 404 \<Longrightarrow>
   trigger_workflow post token tr =
     (tr @ status_lines @ [Post (dispatch_request token),
        Print (U274C @ '' Workflow not found. Make sure the workflow file exists.'')],
      Inr False)"
  by (simp add: tw_defs)

lemma tw_too_long:
  "post (dispatch_request token) = Inr r \<Longrightarrow>
   status_code r \<noteq> 204 \<Longrightarrow> status_code r \<noteq> 401 \<Longrightarrow> status_code r \<noteq> 404 \<Longrightarrow>
   10 ^ default_max_str_digits \<le> \<bar>status_code r\<bar> \<Longrightarrow>
   trigger_workflow post token tr =
     (tr @ status_lines @ [Post (dispatch_request token)], Inl ValueError)"
  by (simp add: tw_defs str_int_cases)

lemma tw_unencodable:
  "post (dispatch_request token) = Inr r \<Longrightarrow>
   status_code r \<noteq> 204 \<Longrightarrow> status_code r \<noteq> 401 \<Longrightarrow> status_code r \<noteq> 404 \<Longrightarrow>
   \<bar>status_code r\<bar> < 10 ^ default_max_str_digits \<Longrightarrow> list_ex surrogate (text r) \<Longrightarrow>
   trigger_workflow post token tr =
     (tr @ status_lines @ [Post (dispatch_request token),
        Print (U274C @ '' Error: '' @ decimal (status_code r))],
      Inl UnicodeEncodeError)"
  by (simp add: tw_defs str_int_cases print_text[of "text r"])

lemma tw_other:
  "post (dispatch_request token) = Inr r \<Longrightarrow>
   status_code r \<noteq> 204 \<Longrightarrow> status_code r \<noteq> 401 \<Longrightarrow> status_code r \<noteq> 404 \<Longrightarrow>
   \<bar>status_code r\<bar> < 10 ^ default_max_str_digits \<Longrightarrow> \<not> list_ex surrogate (text r) \<Longrightarrow>
   trigger_workflow post token tr =
     (tr @ status_lines @ [Post (dispatch_request token),
        Print (U274C @ '' Error: '' @ decimal (status_code r)),
        Print (utf8 (text r))],
      Inr False)"
  by (simp add: tw_defs str_int_cases print_text[of "text r"])

lemma trigger_workflow_unfold:
  "trigger_workflow post token tr =
     (case post (dispatch_request token) of
        Inl e \<Rightarrow> (tr @ status_lines @ [Post (dispatch_request token)], Inl e)
      | Inr response \<Rightarrow>
          if status_code response = 204 then
            (tr @ status_lines @ [Post (dispatch_request token),
               Print (U2705 @ '' Workflow triggered successfully!''),
               Print (U1F4CA @ '' Check progress at: https://github.com/cedyson8-creator/traffic-booster-app/actions'')],
             Inr True)
          else if status_code response = 401 then
            (tr @ status_lines @ [Post (dispatch_request token),
               Print (U274C @ '' Authentication failed. Invalid or expired token.'')],
             Inr False)
          else if status_code response = 404 then
            (tr @ status_lines @ [Post (dispatch_request token),
               Print (U274C @ '' Workflow not found. Make sure the workflow file exists.'')],
             Inr False)
          else if 10 ^ default_max_str_digits \<le> \<bar>status_code response\<bar> then
            (tr @ status_lines @ [Post (dispatch_request token)], Inl ValueError)
          else if list_ex surrogate (text response) then
            (tr @ status_lines @ [Post (dispatch_request token),
               Print (U274C @ '' Error: '' @ decimal (status_code response))],
             Inl UnicodeEncodeError)
          else
            (tr @ status_lines @ [Post (dispatch_request token),
               Print (U274C @ '' Error: '' @ decimal (status_code response)),
               Print (utf8 (text response))],
             Inr False))"
proof (cases "post (dispatch_request token)")
  case (Inl e)
  then show ?thesis by (simp add: tw_fault)
next
  case (Inr r)
  consider "status_code r = 204" | "status_code r = 401" | "status_code r = 404"
    | "status_code r \<noteq> 204" "status_code r \<noteq> 401" "status_code r \<noteq> 404"
      "10 ^ default_max_str_digits \<le> \<bar>status_code r\<bar>"
    | "status_code r \<noteq> 204" "status_code r \<noteq> 401" "status_code r \<noteq> 404"
      "\<bar>status_code r\<bar> < 10 ^ default_max_str_digits" "list_ex surrogate (text r)"
    | "status_code r \<noteq> 204" "status_code r \<noteq> 401" "status_code r \<noteq> 404"
      "\<bar>status_code r\<bar> < 10 ^ default_max_str_digits" "\<not> list_ex surrogate (text r)"
    by linarith
  then show ?thesis
  proof cases
    case 1
    with Inr show ?thesis by (simp add: tw_204)
  next
    case 2
    with Inr show ?thesis by (simp add: tw_401)
  next
    case 3
    with Inr show ?thesis by (simp add: tw_404)
  next
    case 4
    with Inr show ?thesis by (simp add: tw_too_long)
  next
    case 5
    with Inr show ?thesis by (simp add: tw_unencodable)
  next
    case 6
    with Inr show ?thesis by (simp add: tw_other)
  qed
qed

lemma main_missing:
  assumes "environ ''GITHUB_TOKEN'' = None \<or> environ ''GITHUB_TOKEN'' = Some ''''"
  shows "main environ post =
     ([Print (U274C @ '' GITHUB_TOKEN environment variable not set''),
       Print (U1F4DD @ '' Instructions:''),
       Print ''1. Create a Personal Access Token at: https://github.com/settings/tokens'',
       Print ''2. Grant 'actions' scope'',
       Print (''3. Run: export GITHUB_TOKEN='your_token_here'' @ [CHR 0x27]),
       Print ''4. Then run this script again''],
      Exit 1)"
  using assms
  by (auto simp add: main_def run_def sys_exit_def io_then_def io_bind_def io_return_def
      print_instruction_lines print_ascii is_ascii_def Let_def)

lemma main_with_token:
  assumes "environ ''GITHUB_TOKEN'' = Some token" and "token \<noteq> ''''"
  shows "main environ post =
     (case trigger_workflow post token [] of
        (tr, Inl e) \<Rightarrow> (tr, Unhandled e)
      | (tr, Inr success) \<Rightarrow> (tr, Exit (if success then 0 else 1)))"
  using assms
  by (simp add: main_def run_def sys_exit_def io_bind_def io_return_def Let_def
      split: prod.split sum.split)

lemma main_fault:
  assumes "environ ''GITHUB_TOKEN'' = Some token" and "token \<noteq> ''''"
    and "post (dispatch_request token) = Inl e"
  shows "main environ post = (status_lines @ [Post (dispatch_request token)], Unhandled e)"
  using assms by (simp add: main_with_token tw_fault)

lemma main_204:
  assumes "environ ''GITHUB_TOKEN'' = Some token" and "token \<noteq> ''''"
    and "post (dispatch_request token) = Inr r" and "status_code r = 204"
  shows "main environ post =
     (status_lines @ [Post (dispatch_request token),
        Print (U2705 @ '' Workflow triggered successfully!''),
        Print (U1F4CA @ '' Check progress at: https://github.com/cedyson8-creator/traffic-booster-app/actions'')],
      Exit 0)"
  using assms by (simp add: main_with_token tw_204)

lemma main_401:
  assumes "environ ''GITHUB_TOKEN'' = Some token" and "token \<noteq> ''''"
    and "post (dispatch_request token) = Inr r" and "status_code r = 401"
  shows "main environ post =
     (status_lines @ [Post (dispatch_request token),
        Print (U274C @ '' Authentication failed. Invalid or expired token.'')],
      Exit 1)"
  using assms by (simp add: main_with_token tw_401)

lemma main_404:
  assumes "environ ''GITHUB_TOKEN'' = Some token" and "token \<noteq> ''''"
    and "post (dispatch_request token) = Inr r" and "status_code r = 404"
  shows "main environ post =
     (status_lines @ [Post (dispatch_request token),
        Print (U274C @ '' Workflow not found. Make sure the workflow file exists.'')],
      Exit 1)"
  using assms by (simp add: main_with_token tw_404)

lemma main_too_long:
  assumes "environ ''GITHUB_TOKEN'' = Some token" and "token \<noteq> ''''"
    and "post (dispatch_request token) = Inr r"
    and "status_code r \<noteq> 204" and "status_code r \<noteq> 401" and "status_code r \<noteq> 404"
    and "10 ^ default_max_str_digits \<le> \<bar>status_code r\<bar>"
  shows "main environ post =
     (status_lines @ [Post (dispatch_request token)], Unhandled ValueError)"
  using assms by (simp add: main_with_token tw_too_long)

lemma main_unencodable:
  assumes "environ ''GITHUB_TOKEN'' = Some token" and "token \<noteq> ''''"
    and "post (dispatch_request token) = Inr r"
    and "status_code r \<noteq> 204" and "status_code r \<noteq> 401" and "status_code r \<noteq> 404"
    and "\<bar>status_code r\<bar> < 10 ^ default_max_str_digits" and "list_ex surrogate (text r)"
  shows "main environ post =
     (status_lines @ [Post (dispatch_request token),
        Print (U274C @ '' Error: '' @ decimal (status_code r))],
      Unhandled UnicodeEncodeError)"
  using assms by (simp add: main_with_token tw_unencodable)

lemma main_other:
  assumes "environ ''GITHUB_TOKEN'' = Some token" and "token \<noteq> ''''"
    and "post (dispatch_request token) = Inr r"
    and "status_code r \<noteq> 204" and "status_code r \<noteq> 401" and "status_code r \<noteq> 404"
    and "\<bar>status_code r\<bar> < 10 ^ default_max_str_digits" and "\<not> list_ex surrogate (text r)"
  shows "main environ post =
     (status_lines @ [Post (dispatch_request token),
        Print (U274C @ '' Error: '' @ decimal (status_code r)),
        Print (utf8 (text r))],
      Exit 1)"
  using assms by (simp add: main_with_token tw_other)

lemma main_trace_shape:
  assumes "environ ''GITHUB_TOKEN'' = Some token" and "token \<noteq> ''''"
  shows "take 4 (fst (main environ post)) = status_lines @ [Post (dispatch_request token)]
      \<and> posted (fst (main environ post)) = [dispatch_request token]"
  using assms
  by (simp add: main_with_token trigger_workflow_unfold status_lines_def split: sum.split)

lemma link_line_names_repository:
  "sublist ''cedyson8-creator/traffic-booster-app''
     (U1F4CA @ '' Check progress at: https://github.com/cedyson8-creator/traffic-booster-app/actions'')"
proof -
  have "U1F4CA @ '' Check progress at: https://github.com/cedyson8-creator/traffic-booster-app/actions''
      = (U1F4CA @ '' Check progress at: https://github.com/'')
        @ ''cedyson8-creator/traffic-booster-app'' @ ''/actions''"
    by simp
  then show ?thesis
    by (simp only: sublist_appendI)
qed

lemma thousand_le_limit: "(1000::int) \<le> 10 ^ default_max_str_digits"
proof -
  have "(10::int) ^ 3 \<le> 10 ^ default_max_str_digits"
    by (rule power_increasing) (simp_all add: default_max_str_digits_def)
  then show ?thesis by simp
qed

lemma short_status: "\<bar>c :: int\<bar> < 1000 \<Longrightarrow> \<bar>c\<bar> < 10 ^ default_max_str_digits"
  using thousand_le_limit by linarith

lemma limit_is_no_listed_status:
  "(10::int) ^ default_max_str_digits \<noteq> 204" "(10::int) ^ default_max_str_digits \<noteq> 401"
  "(10::int) ^ default_max_str_digits \<noteq> 404"
  using thousand_le_limit by linarith+

lemma decimal_500: "decimal 500 = ''500''"
  by code_simp

section \<open>The claims\<close>

text \<open>
  Claim C1: When \<^verbatim>\<open>GITHUB_TOKEN\<close> is unset or is the empty string, the program prints
  the six instruction lines (where to create a token, which scope to grant, how to set
  the variable), ends with exit status 1, and calls \<^verbatim>\<open>requests.post\<close> not at all: the
  trace holds no request, whatever the HTTP client would have answered.
\<close>

theorem missing_token_prints_instructions_exits_1:
  assumes "environ ''GITHUB_TOKEN'' = None \<or> environ ''GITHUB_TOKEN'' = Some ''''"
  shows "printed (fst (main environ post)) =
           [U274C @ '' GITHUB_TOKEN environment variable not set'',
            U1F4DD @ '' Instructions:'',
            ''1. Create a Personal Access Token at: https://github.com/settings/tokens'',
            ''2. Grant 'actions' scope'',
            ''3. Run: export GITHUB_TOKEN='your_token_here'' @ [CHR 0x27],
            ''4. Then run this script again'']
       \<and> posted (fst (main environ post)) = []
       \<and> snd (main environ post) = Exit 1
       \<and> exit_status (snd (main environ post)) = 1"
  using assms by (simp add: main_missing)

theorem missing_token_prints_instructions_exits_1_witness:
  "(Map.empty ''GITHUB_TOKEN'' = None \<or> Map.empty ''GITHUB_TOKEN'' = Some '''')
   \<and> printed (fst (main Map.empty (\<lambda>q. Inr \<lparr>status_code = 204, text = []\<rparr>))) =
           [U274C @ '' GITHUB_TOKEN environment variable not set'',
            U1F4DD @ '' Instructions:'',
            ''1. Create a Personal Access Token at: https://github.com/settings/tokens'',
            ''2. Grant 'actions' scope'',
            ''3. Run: export GITHUB_TOKEN='your_token_here'' @ [CHR 0x27],
            ''4. Then run this script again'']
   \<and> posted (fst (main Map.empty (\<lambda>q. Inr \<lparr>status_code = 204, text = []\<rparr>))) = []
   \<and> exit_status (snd (main Map.empty (\<lambda>q. Inr \<lparr>status_code = 204, text = []\<rparr>))) = 1
   \<and> posted (fst (main [''GITHUB_TOKEN'' \<mapsto> ''''] (\<lambda>q. Inr \<lparr>status_code = 204, text = []\<rparr>))) = []
   \<and> exit_status (snd (main [''GITHUB_TOKEN'' \<mapsto> ''''] (\<lambda>q. Inr \<lparr>status_code = 204, text = []\<rparr>))) = 1"
  using missing_token_prints_instructions_exits_1
          [of Map.empty "\<lambda>q. Inr \<lparr>status_code = 204, text = []\<rparr>"]
        missing_token_prints_instructions_exits_1
          [of "[''GITHUB_TOKEN'' \<mapsto> '''']" "\<lambda>q. Inr \<lparr>status_code = 204, text = []\<rparr>"]
  by simp

text \<open>
  Claim C2: With a non-empty token and any response returned for the request, the exit
  status is 0 exactly when the status code is 204, and 1 for every other code.
  \<open>trigger_workflow\<close> returns \<open>True\<close> exactly when the code is 204, and the main block
  exits with 0 exactly when \<open>trigger_workflow\<close> returned \<open>True\<close>. A run that does not
  return the boolean of the status code ends with \<^verbatim>\<open>ValueError\<close> or
  \<^verbatim>\<open>UnicodeEncodeError\<close>, uncaught, which is exit status 1 as well.
\<close>

theorem exit_status_0_iff_204:
  assumes "environ ''GITHUB_TOKEN'' = Some token" and "token \<noteq> ''''"
    and "post (dispatch_request token) = Inr r"
  shows "(exit_status (snd (main environ post)) = 0) = (status_code r = 204)
       \<and> exit_status (snd (main environ post)) = (if status_code r = 204 then 0 else 1)
       \<and> (snd (trigger_workflow post token []) = Inr True) = (status_code r = 204)
       \<and> (snd (trigger_workflow post token []) = Inr (status_code r = 204)
            \<or> snd (trigger_workflow post token []) = Inl ValueError
            \<or> snd (trigger_workflow post token []) = Inl UnicodeEncodeError)
       \<and> (snd (main environ post) = Exit 0) = (snd (trigger_workflow post token []) = Inr True)
       \<and> exit_status (snd (main environ post)) =
           (if snd (trigger_workflow post token []) = Inr True then 0 else 1)"
  using assms by (simp add: main_with_token trigger_workflow_unfold)

theorem exit_status_0_iff_204_witness:
  "[''GITHUB_TOKEN'' \<mapsto> ''ghp_example''] ''GITHUB_TOKEN'' = Some ''ghp_example''
   \<and> ''ghp_example'' \<noteq> ''''
   \<and> exit_status (snd (main [''GITHUB_TOKEN'' \<mapsto> ''ghp_example'']
                          (\<lambda>q. Inr \<lparr>status_code = 204, text = []\<rparr>))) = 0
   \<and> exit_status (snd (main [''GITHUB_TOKEN'' \<mapsto> ''ghp_example'']
                          (\<lambda>q. Inr \<lparr>status_code = 200, text = ascii ''ok''\<rparr>))) = 1
   \<and> snd (trigger_workflow (\<lambda>q. Inr \<lparr>status_code = 204, text = []\<rparr>) ''ghp_example'' [])
       = Inr True
   \<and> snd (trigger_workflow (\<lambda>q. Inr \<lparr>status_code = 200, text = ascii ''ok''\<rparr>) ''ghp_example'' [])
       \<noteq> Inr True"
  using exit_status_0_iff_204
          [of "[''GITHUB_TOKEN'' \<mapsto> ''ghp_example'']" "''ghp_example''"
              "\<lambda>q. Inr \<lparr>status_code = 204, text = []\<rparr>" "\<lparr>status_code = 204, text = []\<rparr>"]
        exit_status_0_iff_204
          [of "[''GITHUB_TOKEN'' \<mapsto> ''ghp_example'']" "''ghp_example''"
              "\<lambda>q. Inr \<lparr>status_code = 200, text = ascii ''ok''\<rparr>"
              "\<lparr>status_code = 200, text = ascii ''ok''\<rparr>"]
  by simp

text \<open>
  Claim C3: With a non-empty token, the requests of the run are exactly one call of
  \<^verbatim>\<open>requests.post\<close>: its URL is the dispatch endpoint of \<open>build-release.yml\<close> in
  \<open>cedyson8-creator/traffic-booster-app\<close>, its headers are \<open>Accept\<close>, \<open>Authorization\<close>
  (the word Bearer, a space, the token) and \<open>X-GitHub-Api-Version\<close>, and its JSON body is
  the object with \<open>ref\<close> = main and \<open>inputs\<close> = (\<open>version\<close> = 1.0.0). Nothing of it but the
  \<open>Authorization\<close> value depends on the environment or on the HTTP client.
\<close>

theorem outgoing_request_is_fixed:
  assumes "environ ''GITHUB_TOKEN'' = Some token" and "token \<noteq> ''''"
  shows "posted (fst (main environ post)) =
     [\<lparr>url = ''https://api.github.com/repos/cedyson8-creator/traffic-booster-app/actions/workflows/build-release.yml/dispatches'',
       json = JObject [(''ref'', JString ''main''),
                       (''inputs'', JObject [(''version'', JString ''1.0.0'')])],
       headers = [(''Accept'', ''application/vnd.github+json''),
                  (''Authorization'', ''Bearer '' @ token),
                  (''X-GitHub-Api-Version'', ''2022-11-28'')]\<rparr>]"
  using assms main_trace_shape[of environ token post] by (simp add: dispatch_request_def)

theorem outgoing_request_is_fixed_witness:
  "[''GITHUB_TOKEN'' \<mapsto> ''ghp_example''] ''GITHUB_TOKEN'' = Some ''ghp_example''
   \<and> ''ghp_example'' \<noteq> ''''
   \<and> posted (fst (main [''GITHUB_TOKEN'' \<mapsto> ''ghp_example'']
                     (\<lambda>q. Inr \<lparr>status_code = 204, text = []\<rparr>))) =
     [\<lparr>url = ''https://api.github.com/repos/cedyson8-creator/traffic-booster-app/actions/workflows/build-release.yml/dispatches'',
       json = JObject [(''ref'', JString ''main''),
                       (''inputs'', JObject [(''version'', JString ''1.0.0'')])],
       headers = [(''Accept'', ''application/vnd.github+json''),
                  (''Authorization'', ''Bearer ghp_example''),
                  (''X-GitHub-Api-Version'', ''2022-11-28'')]\<rparr>]"
  using outgoing_request_is_fixed
          [of "[''GITHUB_TOKEN'' \<mapsto> ''ghp_example'']" "''ghp_example''"
              "\<lambda>q. Inr \<lparr>status_code = 204, text = []\<rparr>"]
  by simp

text \<open>
  Claim C4: With a non-empty token and a response of status 204, the program prints the
  three status lines, the success message and the link to the Actions tab, a line that
  contains \<open>cedyson8-creator/traffic-booster-app\<close>, and exits with status 0.
\<close>

theorem status_204_prints_success_exits_0:
  assumes "environ ''GITHUB_TOKEN'' = Some token" and "token \<noteq> ''''"
    and "post (dispatch_request token) = Inr r" and "status_code r = 204"
  shows "printed (fst (main environ post)) =
           [U1F504 @ '' Triggering workflow: build-release.yml'',
            U1F4CD @ '' Repository: cedyson8-creator/traffic-booster-app'',
            U1F33F @ '' Branch: main'',
            U2705 @ '' Workflow triggered successfully!'',
            U1F4CA @ '' Check progress at: https://github.com/cedyson8-creator/traffic-booster-app/actions'']
       \<and> sublist ''cedyson8-creator/traffic-booster-app'' (last (printed (fst (main environ post))))
       \<and> snd (main environ post) = Exit 0
       \<and> exit_status (snd (main environ post)) = 0"
  using assms by (simp add: main_204 status_lines_def link_line_names_repository)

theorem status_204_prints_success_exits_0_witness:
  "[''GITHUB_TOKEN'' \<mapsto> ''ghp_example''] ''GITHUB_TOKEN'' = Some ''ghp_example''
   \<and> ''ghp_example'' \<noteq> ''''
   \<and> status_code \<lparr>status_code = 204, text = []\<rparr> = 204
   \<and> printed (fst (main [''GITHUB_TOKEN'' \<mapsto> ''ghp_example'']
                      (\<lambda>q. Inr \<lparr>status_code = 204, text = []\<rparr>))) =
           [U1F504 @ '' Triggering workflow: build-release.yml'',
            U1F4CD @ '' Repository: cedyson8-creator/traffic-booster-app'',
            U1F33F @ '' Branch: main'',
            U2705 @ '' Workflow triggered successfully!'',
            U1F4CA @ '' Check progress at: https://github.com/cedyson8-creator/traffic-booster-app/actions'']
   \<and> sublist ''cedyson8-creator/traffic-booster-app''
         (last (printed (fst (main [''GITHUB_TOKEN'' \<mapsto> ''ghp_example'']
                                (\<lambda>q. Inr \<lparr>status_code = 204, text = []\<rparr>)))))
   \<and> exit_status (snd (main [''GITHUB_TOKEN'' \<mapsto> ''ghp_example'']
                          (\<lambda>q. Inr \<lparr>status_code = 204, text = []\<rparr>))) = 0"
  using status_204_prints_success_exits_0
          [of "[''GITHUB_TOKEN'' \<mapsto> ''ghp_example'']" "''ghp_example''"
              "\<lambda>q. Inr \<lparr>status_code = 204, text = []\<rparr>" "\<lparr>status_code = 204, text = []\<rparr>"]
  by (simp add: link_line_names_repository)

text \<open>
  Claim C5: With a non-empty token and a response of status 401, the program prints, after
  the three status lines, that authentication failed (invalid or expired token), and
  exits with status 1.
\<close>

theorem status_401_prints_authentication_failed_exits_1:
  assumes "environ ''GITHUB_TOKEN'' = Some token" and "token \<noteq> ''''"
    and "post (dispatch_request token) = Inr r" and "status_code r = 401"
  shows "printed (fst (main environ post)) =
           [U1F504 @ '' Triggering workflow: build-release.yml'',
            U1F4CD @ '' Repository: cedyson8-creator/traffic-booster-app'',
            U1F33F @ '' Branch: main'',
            U274C @ '' Authentication failed. Invalid or expired token.'']
       \<and> snd (main environ post) = Exit 1
       \<and> exit_status (snd (main environ post)) = 1"
  using assms by (simp add: main_401 status_lines_def)

theorem status_401_prints_authentication_failed_exits_1_witness:
  "[''GITHUB_TOKEN'' \<mapsto> ''ghp_expired''] ''GITHUB_TOKEN'' = Some ''ghp_expired''
   \<and> ''ghp_expired'' \<noteq> ''''
   \<and> status_code \<lparr>status_code = 401, text = ascii ''Bad credentials''\<rparr> = 401
   \<and> printed (fst (main [''GITHUB_TOKEN'' \<mapsto> ''ghp_expired'']
                      (\<lambda>q. Inr \<lparr>status_code = 401, text = ascii ''Bad credentials''\<rparr>))) =
           [U1F504 @ '' Triggering workflow: build-release.yml'',
            U1F4CD @ '' Repository: cedyson8-creator/traffic-booster-app'',
            U1F33F @ '' Branch: main'',
            U274C @ '' Authentication failed. Invalid or expired token.'']
   \<and> exit_status (snd (main [''GITHUB_TOKEN'' \<mapsto> ''ghp_expired'']
                          (\<lambda>q. Inr \<lparr>status_code = 401, text = ascii ''Bad credentials''\<rparr>))) = 1"
  using status_401_prints_authentication_failed_exits_1
          [of "[''GITHUB_TOKEN'' \<mapsto> ''ghp_expired'']" "''ghp_expired''"
              "\<lambda>q. Inr \<lparr>status_code = 401, text = ascii ''Bad credentials''\<rparr>"
              "\<lparr>status_code = 401, text = ascii ''Bad credentials''\<rparr>"]
  by simp

text \<open>
  Claim C6: With a non-empty token and a response of status 404, the program prints, after
  the three status lines, that the workflow was not found, and exits with status 1.
\<close>

theorem status_404_prints_workflow_not_found_exits_1:
  assumes "environ ''GITHUB_TOKEN'' = Some token" and "token \<noteq> ''''"
    and "post (dispatch_request token) = Inr r" and "status_code r = 404"
  shows "printed (fst (main environ post)) =
           [U1F504 @ '' Triggering workflow: build-release.yml'',
            U1F4CD @ '' Repository: cedyson8-creator/traffic-booster-app'',
            U1F33F @ '' Branch: main'',
            U274C @ '' Workflow not found. Make sure the workflow file exists.'']
       \<and> snd (main environ post) = Exit 1
       \<and> exit_status (snd (main environ post)) = 1"
  using assms by (simp add: main_404 status_lines_def)

theorem status_404_prints_workflow_not_found_exits_1_witness:
  "[''GITHUB_TOKEN'' \<mapsto> ''ghp_example''] ''GITHUB_TOKEN'' = Some ''ghp_example''
   \<and> ''ghp_example'' \<noteq> ''''
   \<and> status_code \<lparr>status_code = 404, text = ascii ''Not Found''\<rparr> = 404
   \<and> printed (fst (main [''GITHUB_TOKEN'' \<mapsto> ''ghp_example'']
                      (\<lambda>q. Inr \<lparr>status_code = 404, text = ascii ''Not Found''\<rparr>))) =
           [U1F504 @ '' Triggering workflow: build-release.yml'',
            U1F4CD @ '' Repository: cedyson8-creator/traffic-booster-app'',
            U1F33F @ '' Branch: main'',
            U274C @ '' Workflow not found. Make sure the workflow file exists.'']
   \<and> exit_status (snd (main [''GITHUB_TOKEN'' \<mapsto> ''ghp_example'']
                          (\<lambda>q. Inr \<lparr>status_code = 404, text = ascii ''Not Found''\<rparr>))) = 1"
  using status_404_prints_workflow_not_found_exits_1
          [of "[''GITHUB_TOKEN'' \<mapsto> ''ghp_example'']" "''ghp_example''"
              "\<lambda>q. Inr \<lparr>status_code = 404, text = ascii ''Not Found''\<rparr>"
              "\<lparr>status_code = 404, text = ascii ''Not Found''\<rparr>"]
  by simp

text \<open>
  Claim C7, as amended: With a non-empty token and a response whose status is none of
  204, 401 and 404, the program prints, after the three status lines, a line with the
  status code in decimal (reading the numeral back gives the code) and then the text of
  the response unchanged, in UTF-8, and exits with status 1, provided that the code has
  at most 4300 decimal digits and the text holds no surrogate code point. As the claim
  is written, for every response body, it fails: the text of one surrogate at status 500
  makes \<^verbatim>\<open>print(response.text)\<close> raise \<^verbatim>\<open>UnicodeEncodeError\<close>, so the body is not
  printed, and a status code of 4301 digits makes the f-string raise \<^verbatim>\<open>ValueError\<close>,
  so neither the code nor the body is printed.
\<close>

theorem other_status_prints_code_and_body_exits_1:
  assumes "environ ''GITHUB_TOKEN'' = Some token" and "token \<noteq> ''''"
    and "post (dispatch_request token) = Inr r"
    and "status_code r \<noteq> 204" and "status_code r \<noteq> 401" and "status_code r \<noteq> 404"
    and "\<bar>status_code r\<bar> < 10 ^ default_max_str_digits"
    and "\<not> list_ex surrogate (text r)"
  shows "printed (fst (main environ post)) =
           [U1F504 @ '' Triggering workflow: build-release.yml'',
            U1F4CD @ '' Repository: cedyson8-creator/traffic-booster-app'',
            U1F33F @ '' Branch: main'',
            U274C @ '' Error: '' @ decimal (status_code r),
            utf8 (text r)]
       \<and> int_of_str (decimal (status_code r)) = status_code r
       \<and> snd (main environ post) = Exit 1
       \<and> exit_status (snd (main environ post)) = 1"
  using assms by (simp add: main_other status_lines_def int_of_str_decimal)

theorem other_status_prints_code_and_body_exits_1_witness:
  "[''GITHUB_TOKEN'' \<mapsto> ''ghp_example''] ''GITHUB_TOKEN'' = Some ''ghp_example''
   \<and> ''ghp_example'' \<noteq> ''''
   \<and> status_code \<lparr>status_code = 500, text = ascii ''internal error''\<rparr> \<noteq> 204
   \<and> status_code \<lparr>status_code = 500, text = ascii ''internal error''\<rparr> \<noteq> 401
   \<and> status_code \<lparr>status_code = 500, text = ascii ''internal error''\<rparr> \<noteq> 404
   \<and> \<bar>status_code \<lparr>status_code = 500, text = ascii ''internal error''\<rparr>\<bar>
        < 10 ^ default_max_str_digits
   \<and> \<not> list_ex surrogate (text \<lparr>status_code = 500, text = ascii ''internal error''\<rparr>)
   \<and> printed (fst (main [''GITHUB_TOKEN'' \<mapsto> ''ghp_example'']
                      (\<lambda>q. Inr \<lparr>status_code = 500, text = ascii ''internal error''\<rparr>))) =
           [U1F504 @ '' Triggering workflow: build-release.yml'',
            U1F4CD @ '' Repository: cedyson8-creator/traffic-booster-app'',
            U1F33F @ '' Branch: main'',
            U274C @ '' Error: 500'',
            ''internal error'']
   \<and> exit_status (snd (main [''GITHUB_TOKEN'' \<mapsto> ''ghp_example'']
                          (\<lambda>q. Inr \<lparr>status_code = 500, text = ascii ''internal error''\<rparr>))) = 1"
proof -
  have short: "\<bar>500 :: int\<bar> < 10 ^ default_max_str_digits"
    by (rule short_status) simp
  have body: "utf8 (ascii ''internal error'') = ''internal error''"
    by (rule utf8_ascii) (simp add: is_ascii_def)
  show ?thesis
    using other_status_prints_code_and_body_exits_1
            [of "[''GITHUB_TOKEN'' \<mapsto> ''ghp_example'']" "''ghp_example''"
                "\<lambda>q. Inr \<lparr>status_code = 500, text = ascii ''internal error''\<rparr>"
                "\<lparr>status_code = 500, text = ascii ''internal error''\<rparr>"]
          short
    by (simp add: decimal_500 body surrogate_ascii)
qed

theorem other_status_body_not_always_printed:
  "\<not> (printed (fst (main [''GITHUB_TOKEN'' \<mapsto> ''ghp_example'']
                        (\<lambda>q. Inr \<lparr>status_code = 500, text = [0xD800]\<rparr>))) =
           [U1F504 @ '' Triggering workflow: build-release.yml'',
            U1F4CD @ '' Repository: cedyson8-creator/traffic-booster-app'',
            U1F33F @ '' Branch: main'',
            U274C @ '' Error: 500'',
            utf8 [0xD800]]
        \<and> snd (main [''GITHUB_TOKEN'' \<mapsto> ''ghp_example'']
                   (\<lambda>q. Inr \<lparr>status_code = 500, text = [0xD800]\<rparr>)) = Exit 1)
   \<and> printed (fst (main [''GITHUB_TOKEN'' \<mapsto> ''ghp_example'']
                      (\<lambda>q. Inr \<lparr>status_code = 500, text = [0xD800]\<rparr>))) =
           [U1F504 @ '' Triggering workflow: build-release.yml'',
            U1F4CD @ '' Repository: cedyson8-creator/traffic-booster-app'',
            U1F33F @ '' Branch: main'',
            U274C @ '' Error: 500'']
   \<and> snd (main [''GITHUB_TOKEN'' \<mapsto> ''ghp_example'']
              (\<lambda>q. Inr \<lparr>status_code = 500, text = [0xD800]\<rparr>)) = Unhandled UnicodeEncodeError
   \<and> printed (fst (main [''GITHUB_TOKEN'' \<mapsto> ''ghp_example'']
                      (\<lambda>q. Inr \<lparr>status_code = 10 ^ default_max_str_digits, text = []\<rparr>))) =
           [U1F504 @ '' Triggering workflow: build-release.yml'',
            U1F4CD @ '' Repository: cedyson8-creator/traffic-booster-app'',
            U1F33F @ '' Branch: main'']
   \<and> snd (main [''GITHUB_TOKEN'' \<mapsto> ''ghp_example'']
              (\<lambda>q. Inr \<lparr>status_code = 10 ^ default_max_str_digits, text = []\<rparr>))
       = Unhandled ValueError"
proof -
  have short: "\<bar>500 :: int\<bar> < 10 ^ default_max_str_digits"
    by (rule short_status) simp
  have a: "main [''GITHUB_TOKEN'' \<mapsto> ''ghp_example'']
                (\<lambda>q. Inr \<lparr>status_code = 500, text = [0xD800]\<rparr>)
         = (status_lines @ [Post (dispatch_request ''ghp_example''),
              Print (U274C @ '' Error: '' @ decimal 500)],
            Unhandled UnicodeEncodeError)"
    using main_unencodable
            [of "[''GITHUB_TOKEN'' \<mapsto> ''ghp_example'']" "''ghp_example''"
                "\<lambda>q. Inr \<lparr>status_code = 500, text = [0xD800]\<rparr>"
                "\<lparr>status_code = 500, text = [0xD800]\<rparr>"]
          short
    by (simp add: surrogate_def)
  have b: "main [''GITHUB_TOKEN'' \<mapsto> ''ghp_example'']
                (\<lambda>q. Inr \<lparr>status_code = 10 ^ default_max_str_digits, text = []\<rparr>)
         = (status_lines @ [Post (dispatch_request ''ghp_example'')], Unhandled ValueError)"
    using main_too_long
            [of "[''GITHUB_TOKEN'' \<mapsto> ''ghp_example'']" "''ghp_example''"
                "\<lambda>q. Inr \<lparr>status_code = 10 ^ default_max_str_digits, text = []\<rparr>"
                "\<lparr>status_code = 10 ^ default_max_str_digits, text = []\<rparr>"]
    by (simp add: limit_is_no_listed_status)
  show ?thesis
    by (simp add: a b status_lines_def decimal_500)
qed

text \<open>
  Claim C8: With a non-empty token, whatever the HTTP client does (a response of any
  status, or an exception), the run starts with exactly three printed status lines
  (workflow, repository, branch) followed by the request, and that request is the only
  one of the whole run.
\<close>

theorem exactly_one_post_after_three_status_lines:
  assumes "environ ''GITHUB_TOKEN'' = Some token" and "token \<noteq> ''''"
  shows "take 4 (fst (main environ post)) =
           [Print (U1F504 @ '' Triggering workflow: build-release.yml''),
            Print (U1F4CD @ '' Repository: cedyson8-creator/traffic-booster-app''),
            Print (U1F33F @ '' Branch: main''),
            Post (dispatch_request token)]
       \<and> posted (fst (main environ post)) = [dispatch_request token]
       \<and> length (posted (fst (main environ post))) = 1"
  using assms main_trace_shape[of environ token post] by (simp add: status_lines_def)

theorem exactly_one_post_after_three_status_lines_witness:
  "[''GITHUB_TOKEN'' \<mapsto> ''ghp_example''] ''GITHUB_TOKEN'' = Some ''ghp_example''
   \<and> ''ghp_example'' \<noteq> ''''
   \<and> take 4 (fst (main [''GITHUB_TOKEN'' \<mapsto> ''ghp_example'']
                     (\<lambda>q. Inl (RequestException ''connection refused'')))) =
           [Print (U1F504 @ '' Triggering workflow: build-release.yml''),
            Print (U1F4CD @ '' Repository: cedyson8-creator/traffic-booster-app''),
            Print (U1F33F @ '' Branch: main''),
            Post (dispatch_request ''ghp_example'')]
   \<and> length (posted (fst (main [''GITHUB_TOKEN'' \<mapsto> ''ghp_example'']
                             (\<lambda>q. Inl (RequestException ''connection refused''))))) = 1
   \<and> length (posted (fst (main [''GITHUB_TOKEN'' \<mapsto> ''ghp_example'']
                             (\<lambda>q. Inr \<lparr>status_code = 503, text = [0xD800]\<rparr>)))) = 1"
  using exactly_one_post_after_three_status_lines
          [of "[''GITHUB_TOKEN'' \<mapsto> ''ghp_example'']" "''ghp_example''"
              "\<lambda>q. Inl (RequestException ''connection refused'')"]
        exactly_one_post_after_three_status_lines
          [of "[''GITHUB_TOKEN'' \<mapsto> ''ghp_example'']" "''ghp_example''"
              "\<lambda>q. Inr \<lparr>status_code = 503, text = [0xD800]\<rparr>"]
  by simp

text \<open>
  Claim C9: Two runs with any two non-empty tokens that receive the same response (status
  code and text) print the same lines, produce the same output stream and end in the same
  way; their requests differ at most in the \<open>Authorization\<close> header.
\<close>

theorem token_does_not_influence_output:
  assumes "environ1 ''GITHUB_TOKEN'' = Some token1" and "token1 \<noteq> ''''"
    and "environ2 ''GITHUB_TOKEN'' = Some token2" and "token2 \<noteq> ''''"
    and "post1 (dispatch_request token1) = Inr r"
    and "post2 (dispatch_request token2) = Inr r"
  shows "printed (fst (main environ1 post1)) = printed (fst (main environ2 post2))
       \<and> stdout (fst (main environ1 post1)) = stdout (fst (main environ2 post2))
       \<and> snd (main environ1 post1) = snd (main environ2 post2)
       \<and> exit_status (snd (main environ1 post1)) = exit_status (snd (main environ2 post2))
       \<and> map strip_authorization (posted (fst (main environ1 post1)))
           = map strip_authorization (posted (fst (main environ2 post2)))"
proof -
  have p: "printed (fst (main environ1 post1)) = printed (fst (main environ2 post2))"
    using assms
    by (simp add: main_with_token trigger_workflow_unfold status_lines_def)
  have e: "snd (main environ1 post1) = snd (main environ2 post2)"
    using assms
    by (simp add: main_with_token trigger_workflow_unfold)
  have q: "map strip_authorization (posted (fst (main environ1 post1)))
           = map strip_authorization (posted (fst (main environ2 post2)))"
    using assms main_trace_shape[of environ1 token1 post1] main_trace_shape[of environ2 token2 post2]
    by (simp add: strip_authorization_def dispatch_request_def)
  from p e q show ?thesis
    by (simp add: stdout_def)
qed

theorem token_does_not_influence_output_witness:
  "[''GITHUB_TOKEN'' \<mapsto> ''ghp_alice''] ''GITHUB_TOKEN'' = Some ''ghp_alice''
   \<and> ''ghp_alice'' \<noteq> ''''
   \<and> [''GITHUB_TOKEN'' \<mapsto> ''ghp_bob''] ''GITHUB_TOKEN'' = Some ''ghp_bob''
   \<and> ''ghp_bob'' \<noteq> ''''
   \<and> stdout (fst (main [''GITHUB_TOKEN'' \<mapsto> ''ghp_alice'']
                     (\<lambda>q. Inr \<lparr>status_code = 422, text = ascii ''Validation Failed''\<rparr>)))
     = stdout (fst (main [''GITHUB_TOKEN'' \<mapsto> ''ghp_bob'']
                     (\<lambda>q. Inr \<lparr>status_code = 422, text = ascii ''Validation Failed''\<rparr>)))
   \<and> exit_status (snd (main [''GITHUB_TOKEN'' \<mapsto> ''ghp_alice'']
                     (\<lambda>q. Inr \<lparr>status_code = 422, text = ascii ''Validation Failed''\<rparr>)))
     = exit_status (snd (main [''GITHUB_TOKEN'' \<mapsto> ''ghp_bob'']
                     (\<lambda>q. Inr \<lparr>status_code = 422, text = ascii ''Validation Failed''\<rparr>)))"
  using token_does_not_influence_output
          [of "[''GITHUB_TOKEN'' \<mapsto> ''ghp_alice'']" "''ghp_alice''"
              "[''GITHUB_TOKEN'' \<mapsto> ''ghp_bob'']" "''ghp_bob''"
              "\<lambda>q. Inr \<lparr>status_code = 422, text = ascii ''Validation Failed''\<rparr>"
              "\<lparr>status_code = 422, text = ascii ''Validation Failed''\<rparr>"
              "\<lambda>q. Inr \<lparr>status_code = 422, text = ascii ''Validation Failed''\<rparr>"]
  by simp




end
